theory Spec2Isabelle
  imports Main
begin

section \<open>Python values\<close>

text \<open>
  The values the client handles, as finite trees: what a YAML or JSON document loads to
  and what a caller passes. \<open>PFloat r\<close> is the float whose \<open>repr\<close> is \<open>r\<close>.
  \<open>PObj q\<close> is an instance of a class named \<open>q\<close> that is none of the other types nor a
  subclass of one, and that defines no special method of its own. A string is a list of
  characters, each one code point below 256. A dictionary is an association list in
  insertion order. Containers that hold themselves are not values of this type.
\<close>

datatype pyval =
    PNone
  | PBool bool
  | PInt int
  | PFloat string
  | PStr string
  | PList "pyval list"
  | PTuple "pyval list"
  | PDict "(pyval \<times> pyval) list"
  | PObj string

type_synonym pydict = "(pyval \<times> pyval) list"

text \<open>
  The exceptions of the model. \<open>Raised n\<close> is an exception \<open>n\<close> that a library call
  raised for a reason outside the program: the HTTP layer, the body decoder, the YAML
  loader.
\<close>

datatype error =
    TypeError
  | AttributeError string
  | KeyError string
  | ValueError string
  | EOFError
  | Raised string

text \<open>Truth value testing, as \<open>if x:\<close> and \<open>not x\<close> do it.\<close>

fun truthy :: "pyval \<Rightarrow> bool" where
  "truthy PNone = False"
| "truthy (PBool b) = b"
| "truthy (PInt i) = (i \<noteq> 0)"
| "truthy (PFloat r) = (r \<noteq> ''0.0'' \<and> r \<noteq> ''-0.0'')"
| "truthy (PStr s) = (s \<noteq> [])"
| "truthy (PList xs) = (xs \<noteq> [])"
| "truthy (PTuple xs) = (xs \<noteq> [])"
| "truthy (PDict kvs) = (kvs \<noteq> [])"
| "truthy (PObj q) = True"

text \<open>\<open>type(o).__qualname__\<close>.\<close>

fun qualname :: "pyval \<Rightarrow> string" where
  "qualname PNone = ''NoneType''"
| "qualname (PBool b) = ''bool''"
| "qualname (PInt i) = ''int''"
| "qualname (PFloat r) = ''float''"
| "qualname (PStr s) = ''str''"
| "qualname (PList xs) = ''list''"
| "qualname (PTuple xs) = ''tuple''"
| "qualname (PDict kvs) = ''dict''"
| "qualname (PObj q) = q"

text \<open>
  The operator \<open>+\<close> where one operand is a string, as \<open>path_to_url\<close> uses it: the
  concatenation when the other operand is a string too, TypeError otherwise.
\<close>

fun str_add :: "pyval \<Rightarrow> pyval \<Rightarrow> error + pyval" where
  "str_add (PStr s) (PStr t) = Inr (PStr (s @ t))"
| "str_add _ _ = Inl TypeError"

text \<open>
  Subscription \<open>obj[key]\<close> with a string key: a dictionary gives the value stored under
  the key or raises KeyError; a list, a tuple or a string wants an integer index, and the
  other values are not subscriptable.
\<close>

fun py_getitem :: "pyval \<Rightarrow> string \<Rightarrow> error + pyval" where
  "py_getitem (PDict kvs) k =
     (case map_of kvs (PStr k) of None \<Rightarrow> Inl (KeyError k) | Some v \<Rightarrow> Inr v)"
| "py_getitem _ k = Inl TypeError"

text \<open>
  \<open>d[k] = v\<close> keeps the position of a key that is present and appends a new one;
  \<open>d.update(other)\<close> stores the entries of \<open>other\<close> in their order.
\<close>

fun dict_set :: "pydict \<Rightarrow> pyval \<Rightarrow> pyval \<Rightarrow> pydict" where
  "dict_set [] k v = [(k, v)]"
| "dict_set ((k', v') # kvs) k v =
     (if k' = k then (k', v) # kvs else (k', v') # dict_set kvs k v)"

fun dict_update :: "pydict \<Rightarrow> pydict \<Rightarrow> pydict" where
  "dict_update d [] = d"
| "dict_update d ((k, v) # other) = dict_update (dict_set d k v) other"

text \<open>
  What a JSON parser returns: the JSON types only, every object key a string. \<open>to_py\<close>
  is that document as a Python value.
\<close>

datatype json_value =
    JNull
  | JBool bool
  | JInt int
  | JFloat string
  | JStr string
  | JList "json_value list"
  | JDict "(string \<times> json_value) list"

fun to_py :: "json_value \<Rightarrow> pyval"
and to_py_list :: "json_value list \<Rightarrow> pyval list"
and to_py_items :: "(string \<times> json_value) list \<Rightarrow> pydict"
where
  "to_py JNull = PNone"
| "to_py (JBool b) = PBool b"
| "to_py (JInt i) = PInt i"
| "to_py (JFloat r) = PFloat r"
| "to_py (JStr s) = PStr s"
| "to_py (JList xs) = PList (to_py_list xs)"
| "to_py (JDict kvs) = PDict (to_py_items kvs)"
| "to_py_list [] = []"
| "to_py_list (x # xs) = to_py x # to_py_list xs"
| "to_py_items [] = []"
| "to_py_items ((k, v) # kvs) = (PStr k, to_py v) # to_py_items kvs"

section \<open>The world outside the program\<close>

text \<open>
  A request as the session object receives it. The parameters are the contents of the
  \<open>params\<close> argument at the moment of the call.
\<close>

record request =
  req_method :: string
  req_url :: pyval
  req_params :: pyval
  req_data :: pyval
  req_json :: pyval

text \<open>A response object is what its \<open>json()\<close> method does: the body parsed, or an exception.\<close>

type_synonym response = "error + json_value"

fun response_json :: "response \<Rightarrow> error + pyval" where
  "response_json (Inl e) = Inl e"
| "response_json (Inr j) = Inr (to_py j)"

text \<open>
  \<open>json.dumps(obj, default=hook)\<close>, a function of the standard library, for a hook that
  returns a string: the text, or the exception it raises.
\<close>

type_synonym dumps = "(pyval \<Rightarrow> string) \<Rightarrow> pyval \<Rightarrow> error + string"

text \<open>
  The state the program reads and changes: the file system seen through \<open>is_file\<close> and
  the YAML loader (no file, or what loading it gives), the lines waiting on standard
  input, the objects printed so far, the clock (its successive readings in
  milliseconds), the server (its answer to a request after the requests before it, or the
  exception of the HTTP layer), the requests handed to the session so far, the library's
  \<open>json.dumps\<close>, and the store of the dictionaries that are passed by reference.
\<close>

record world =
  files :: "string \<Rightarrow> (error + pyval) option"
  stdin :: "string list"
  stdout :: "pyval list"
  clock :: "nat \<Rightarrow> int"
  ticks :: nat
  server :: "request list \<Rightarrow> request \<Rightarrow> error + response"
  sent :: "request list"
  json_dumps :: dumps
  heap :: "nat \<Rightarrow> pydict"
  next_addr :: nat

text \<open>
  A computation changes the world and returns a value or raises; the world it leaves is
  there in both cases.
\<close>

type_synonym 'a io = "world \<Rightarrow> (error + 'a) \<times> world"

definition io_return :: "'a \<Rightarrow> 'a io" where
  "io_return x = (\<lambda>w. (Inr x, w))"

definition io_raise :: "error \<Rightarrow> 'a io" where
  "io_raise e = (\<lambda>w. (Inl e, w))"

definition io_lift :: "error + 'a \<Rightarrow> 'a io" where
  "io_lift r = (\<lambda>w. (r, w))"

definition io_bind :: "'a io \<Rightarrow> ('a \<Rightarrow> 'b io) \<Rightarrow> 'b io" where
  "io_bind m f = (\<lambda>w. case m w of (Inl e, w') \<Rightarrow> (Inl e, w') | (Inr x, w') \<Rightarrow> f x w')"

definition py_print :: "pyval \<Rightarrow> unit io" where
  "py_print x = (\<lambda>w. (Inr (), w\<lparr>stdout := stdout w @ [x]\<rparr>))"

definition py_input :: "string \<Rightarrow> string io" where
  "py_input prompt = (\<lambda>w.
     case stdin w of
       [] \<Rightarrow> (Inl EOFError, w\<lparr>stdout := stdout w @ [PStr prompt]\<rparr>)
     | l # ls \<Rightarrow> (Inr l, w\<lparr>stdout := stdout w @ [PStr prompt], stdin := ls\<rparr>))"

text \<open>A dictionary display \<open>{...}\<close> bound to a name: a new object in the store.\<close>

definition new_dict :: "pydict \<Rightarrow> nat io" where
  "new_dict d = (\<lambda>w.
     (Inr (next_addr w), w\<lparr>heap := (heap w)(next_addr w := d), next_addr := Suc (next_addr w)\<rparr>))"

text \<open>A value of the program is a value proper or a reference to a dictionary of the store.\<close>

datatype pyobj = Val pyval | Ref nat

fun deref :: "(nat \<Rightarrow> pydict) \<Rightarrow> pyobj \<Rightarrow> pyval" where
  "deref h (Val v) = v"
| "deref h (Ref a) = PDict (h a)"

text \<open>An argument annotated \<open>dict = None\<close>: None, or a reference to a dictionary.\<close>

fun obj_of :: "nat option \<Rightarrow> pyobj" where
  "obj_of None = Val PNone"
| "obj_of (Some a) = Ref a"

section \<open>The client\<close>

record session =
  s_verify :: pyval

text \<open>
  The attributes of an OmadaAPI object. Those that \<open>__init__\<close> assigns only after its
  first method call are optional: None is an attribute that does not exist yet.
\<close>

record client =
  config_fpath :: string
  token :: pyval
  base_api_path :: string
  config_dict :: "pyval option"
  baseurl :: pyval
  site :: pyval
  verify :: pyval
  login_username :: "pyval option"
  login_password :: "pyval option"
  session :: "session option"
  login_token :: "pyval option"

type_synonym api_result = "(string \<times> pyobj) list"

definition get_timestamp :: "int io" where
  "get_timestamp = (\<lambda>w. (Inr (clock w (ticks w)), w\<lparr>ticks := Suc (ticks w)\<rparr>))"

definition path_to_url :: "client \<Rightarrow> pyval \<Rightarrow> error + pyval" where
  "path_to_url self path =
     (case str_add (baseurl self) (PStr (base_api_path self)) of
        Inl e \<Rightarrow> Inl e
      | Inr u \<Rightarrow> str_add u path)"

text \<open>
  The \<open>default\<close> hook of \<open>safe_json_serialize\<close>:
  \<open>lambda o: f"<<non-serializable: {type(o).__qualname__}>>"\<close>.
\<close>

definition default_hook :: "pyval \<Rightarrow> string" where
  "default_hook x = ''<<non-serializable: '' @ qualname x @ ''>>''"

text \<open>
  \<open>json.dumps(obj, default=...)\<close>: the argument \<open>indent\<close> is not passed on, and an
  exception of \<open>json.dumps\<close> is not caught.
\<close>

definition safe_json_serialize :: "dumps \<Rightarrow> pyval \<Rightarrow> pyval \<Rightarrow> error + string" where
  "safe_json_serialize dumps obj indent = dumps default_hook obj"

text \<open>
  \<open>self.session.get\<close>, \<open>post\<close> and \<open>patch\<close>: the attribute \<open>session\<close> is looked up
  first; the request goes to the server and is recorded. \<open>get\<close> passes no data and no
  JSON body.
\<close>

definition session_request ::
  "client \<Rightarrow> string \<Rightarrow> pyval \<Rightarrow> nat option \<Rightarrow> pyval \<Rightarrow> pyval \<Rightarrow> response io" where
  "session_request self meth url endpoint_params data json = (\<lambda>w.
     case session self of
       None \<Rightarrow> (Inl (AttributeError ''session''), w)
     | Some s \<Rightarrow>
         (let req = \<lparr>req_method = meth, req_url = url,
                     req_params = deref (heap w) (obj_of endpoint_params),
                     req_data = data, req_json = json\<rparr>
          in (server w (sent w) req, w\<lparr>sent := sent w @ [req]\<rparr>)))"

text \<open>
  \<open>endpoint_params.update({"token": self.token, "_": self.get_timestamp()})\<close>: the
  method is looked up before the argument is evaluated, so None raises without reading
  the clock.
\<close>

definition attach_token :: "client \<Rightarrow> nat option \<Rightarrow> unit io" where
  "attach_token self endpoint_params =
     (case endpoint_params of
        None \<Rightarrow> io_raise (AttributeError ''update'')
      | Some a \<Rightarrow>
          io_bind get_timestamp (\<lambda>ts w.
            (Inr (), w\<lparr>heap := (heap w)(a :=
               dict_update (heap w a) [(PStr ''token'', token self), (PStr ''_'', PInt ts)])\<rparr>)))"

definition serialize_params :: "nat option \<Rightarrow> string io" where
  "serialize_params endpoint_params = (\<lambda>w.
     (safe_json_serialize (json_dumps w) (deref (heap w) (obj_of endpoint_params)) (PInt 4), w))"

definition serialize_response :: "pyval \<Rightarrow> string io" where
  "serialize_response response = (\<lambda>w.
     (safe_json_serialize (json_dumps w) response (PInt 4), w))"

definition result_getitem :: "api_result \<Rightarrow> string \<Rightarrow> pyobj io" where
  "result_getitem r k = (case map_of r k of None \<Rightarrow> io_raise (KeyError k) | Some v \<Rightarrow> io_return v)"

definition obj_getitem :: "pyobj \<Rightarrow> string \<Rightarrow> pyval io" where
  "obj_getitem x k = (\<lambda>w. (py_getitem (deref (heap w) x) k, w))"

definition print_obj :: "pyobj \<Rightarrow> unit io" where
  "print_obj x = (\<lambda>w. py_print (deref (heap w) x) w)"

definition print_debug :: "api_result \<Rightarrow> unit io" where
  "print_debug response =
     io_bind (py_print (PStr (CHR 0x0A # ''URL:''))) (\<lambda>_.
     io_bind (result_getitem response ''url'') (\<lambda>x.
     io_bind (print_obj x) (\<lambda>_.
     io_bind (py_print (PStr (CHR 0x0A # ''Endpoint Params:''))) (\<lambda>_.
     io_bind (result_getitem response ''endpoint_params_pretty'') (\<lambda>x.
     io_bind (print_obj x) (\<lambda>_.
     io_bind (py_print (PStr (CHR 0x0A # ''Response:''))) (\<lambda>_.
     io_bind (result_getitem response ''json_data_pretty'') (\<lambda>x.
     print_obj x))))))))"

definition makeApiCall ::
  "client \<Rightarrow> pyval \<Rightarrow> string \<Rightarrow> nat option \<Rightarrow> pyval \<Rightarrow> pyval \<Rightarrow> bool \<Rightarrow> bool \<Rightarrow> pyval
     \<Rightarrow> api_result io" where
  "makeApiCall self url mode endpoint_params data json debug include_token bare_url =
     io_bind (if \<not> truthy bare_url then io_lift (path_to_url self url) else io_return url) (\<lambda>url.
     io_bind (if include_token then attach_token self endpoint_params else io_return ()) (\<lambda>_.
     io_bind (if mode = ''GET''
                then session_request self ''GET'' url endpoint_params PNone PNone
              else if mode = ''POST''
                then session_request self ''POST'' url endpoint_params data json
              else if mode = ''PATCH''
                then session_request self ''PATCH'' url endpoint_params data json
              else io_raise (ValueError (''Unsupported mode '' @ mode))) (\<lambda>data.
     io_bind (io_lift (response_json data)) (\<lambda>response.
     io_bind (serialize_params endpoint_params) (\<lambda>params_pretty.
     io_bind (serialize_response response) (\<lambda>pretty.
     io_bind (io_return
        [(''url'', Val url),
         (''endpoint_params'', obj_of endpoint_params),
         (''endpoint_params_pretty'', Val (PStr params_pretty)),
         (''json_data'', Val response),
         (''json_data_pretty'', Val (PStr pretty))]) (\<lambda>response.
     io_bind (if debug then print_debug response else io_return ()) (\<lambda>_.
     io_return response))))))))"

text \<open>The printed form of the returned dictionary: its entries, references followed.\<close>

definition print_result :: "api_result \<Rightarrow> unit io" where
  "print_result r = (\<lambda>w. py_print (PDict (map (\<lambda>(k, v). (PStr k, deref (heap w) v)) r)) w)"

definition login_prompt :: "client \<Rightarrow> (pyval \<times> pyval) io" where
  "login_prompt self =
     io_bind (py_input (''Omada login: '' @ [CHR 0x0A])) (\<lambda>login_username.
     io_bind (py_input (''password: '' @ [CHR 0x0A])) (\<lambda>login_password.
     io_bind (new_dict [(PStr ''username'', PStr ''login_username''),
                        (PStr ''password'', PStr ''login_password'')]) (\<lambda>endpoint_params.
     io_bind (makeApiCall self (PStr ''/login'') ''GET'' (Some endpoint_params) PNone PNone
                False True (PBool False)) (\<lambda>result.
     io_bind (print_result result) (\<lambda>_.
     io_return (PNone, PNone))))))"

text \<open>\<open>login\<close> returns the token and the client with the token stored.\<close>

definition login :: "client \<Rightarrow> (pyval \<times> client) io" where
  "login self =
     (case login_username self of
        None \<Rightarrow> io_raise (AttributeError ''login_username'')
      | Some u \<Rightarrow>
     (case login_password self of
        None \<Rightarrow> io_raise (AttributeError ''login_password'')
      | Some p \<Rightarrow>
          io_bind (makeApiCall self (PStr ''/login'') ''POST'' None PNone
                     (PDict [(PStr ''username'', u), (PStr ''password'', p)])
                     True False (PBool False)) (\<lambda>result.
          io_bind (result_getitem result ''json_data'') (\<lambda>json_data.
          io_bind (obj_getitem json_data ''result'') (\<lambda>r.
          io_bind (io_lift (py_getitem r ''token'')) (\<lambda>t.
          io_return (t, self\<lparr>token := t\<rparr>)))))))"

text \<open>The end of \<open>__init__\<close>: the session is created, then the client logs in.\<close>

definition init_session :: "client \<Rightarrow> client io" where
  "init_session self =
     io_bind (login (self\<lparr>session := Some \<lparr>s_verify = verify self\<rparr>\<rparr>)) (\<lambda>(t, self).
     io_return (self\<lparr>login_token := Some t\<rparr>))"

text \<open>
  \<open>__init__\<close>, with its arguments \<open>config_fpath\<close>, \<open>baseurl\<close>, \<open>site\<close> and
  \<open>verify\<close>. It returns the object when it does not raise.
\<close>

definition init :: "string \<Rightarrow> pyval \<Rightarrow> pyval \<Rightarrow> pyval \<Rightarrow> client io" where
  "init fpath baseurl_arg site_arg verify_arg = (\<lambda>w.
     case files w fpath of
       Some loaded \<Rightarrow>
         io_bind (io_lift loaded) (\<lambda>cfg.
         io_bind (io_lift (py_getitem cfg ''baseurl'')) (\<lambda>b.
         io_bind (io_lift (py_getitem cfg ''site'')) (\<lambda>s.
         io_bind (io_lift (py_getitem cfg ''verify'')) (\<lambda>v.
         io_bind (io_lift (py_getitem cfg ''username'')) (\<lambda>u.
         io_bind (io_lift (py_getitem cfg ''password'')) (\<lambda>p.
         init_session
           \<lparr>config_fpath = fpath, token = PNone, base_api_path = ''/api/v2'',
            config_dict = Some cfg, baseurl = b, site = s, verify = v,
            login_username = Some u, login_password = Some p,
            session = None, login_token = None\<rparr>)))))) w
     | None \<Rightarrow>
         (let self = \<lparr>config_fpath = fpath, token = PNone, base_api_path = ''/api/v2'',
                      config_dict = None, baseurl = baseurl_arg, site = site_arg,
                      verify = verify_arg, login_username = None, login_password = None,
                      session = None, login_token = None\<rparr>
          in io_bind (login_prompt self) (\<lambda>(u, p).
             init_session (self\<lparr>login_username := Some u, login_password := Some p\<rparr>))) w)"

section \<open>Example inputs\<close>

subsection \<open>An encoder\<close>

text \<open>
  \<open>json.dumps(obj, default=hook)\<close> as CPython 3.11 computes it with its other options
  at their defaults (\<open>ensure_ascii\<close>, \<open>check_circular\<close> and \<open>allow_nan\<close> on,
  \<open>skipkeys\<close> off, no indentation, the separators \<open>", "\<close> and \<open>": "\<close>), on the values of
  type \<open>pyval\<close>. It is the \<open>json.dumps\<close> of the example world below.
\<close>

definition hex_digit :: "nat \<Rightarrow> char" where
  "hex_digit n = ''0123456789abcdef'' ! (n mod 16)"

definition dec_digit :: "nat \<Rightarrow> char" where
  "dec_digit n = ''0123456789'' ! (n mod 10)"

function dec_nat :: "nat \<Rightarrow> string" where
  "dec_nat n = (if n < 10 then [dec_digit n] else dec_nat (n div 10) @ [dec_digit n])"
  by pat_completeness auto
termination
  by (relation "measure id") auto

text \<open>
  \<open>int.__repr__\<close>: the conversion of an integer of more than 4300 digits raises
  ValueError.
\<close>

definition repr_int :: "int \<Rightarrow> error + string" where
  "repr_int i =
     (let ds = dec_nat (nat \<bar>i\<bar>) in
      if 4300 < length ds
        then Inl (ValueError (''Exceeds the limit (4300 digits) for integer string conversion; ''
               @ ''use sys.set_int_max_str_digits() to increase the limit''))
      else Inr (if i < 0 then CHR ''-'' # ds else ds))"

text \<open>A float is written by its \<open>repr\<close>, the three special values by their JavaScript names.\<close>

definition floatstr :: "string \<Rightarrow> string" where
  "floatstr r =
     (if r = ''nan'' then ''NaN''
      else if r = ''inf'' then ''Infinity''
      else if r = ''-inf'' then ''-Infinity''
      else r)"

text \<open>The escapes of the ASCII-only string encoder.\<close>

definition escape_char :: "char \<Rightarrow> string" where
  "escape_char c =
     (if c = CHR 0x5C then [CHR 0x5C, CHR 0x5C]
      else if c = CHR 0x22 then [CHR 0x5C, CHR 0x22]
      else if c = CHR 0x08 then [CHR 0x5C, CHR ''b'']
      else if c = CHR 0x0C then [CHR 0x5C, CHR ''f'']
      else if c = CHR 0x0A then [CHR 0x5C, CHR ''n'']
      else if c = CHR 0x0D then [CHR 0x5C, CHR ''r'']
      else if c = CHR 0x09 then [CHR 0x5C, CHR ''t'']
      else if of_char c < (0x20 :: nat) \<or> (0x7E :: nat) < of_char c
        then [CHR 0x5C, CHR ''u'', CHR ''0'', CHR ''0'',
              hex_digit (of_char c div 16), hex_digit (of_char c)]
      else [c])"

definition encode_str :: "string \<Rightarrow> string" where
  "encode_str s = CHR 0x22 # concat (map escape_char s) @ [CHR 0x22]"

text \<open>
  A dictionary key is a string, or a float, a bool, None or an integer written as a
  string; a key of any other type raises TypeError. The \<open>default\<close> hook is not asked.
\<close>

fun encode_key :: "pyval \<Rightarrow> error + string" where
  "encode_key (PStr s) = Inr (encode_str s)"
| "encode_key (PFloat r) = Inr (encode_str (floatstr r))"
| "encode_key (PBool b) = Inr (encode_str (if b then ''true'' else ''false''))"
| "encode_key PNone = Inr (encode_str ''null'')"
| "encode_key (PInt i) = (case repr_int i of Inl e \<Rightarrow> Inl e | Inr s \<Rightarrow> Inr (encode_str s))"
| "encode_key (PList xs) = Inl TypeError"
| "encode_key (PTuple xs) = Inl TypeError"
| "encode_key (PDict kvs) = Inl TypeError"
| "encode_key (PObj q) = Inl TypeError"

fun join :: "string \<Rightarrow> string list \<Rightarrow> string" where
  "join sep [] = []"
| "join sep [s] = s"
| "join sep (s # t # ss) = s @ sep @ join sep (t # ss)"

definition bracket :: "char \<Rightarrow> char \<Rightarrow> string list \<Rightarrow> string" where
  "bracket l r ss = l # join '', '' ss @ [r]"

text \<open>
  The encoder proper. \<open>depth\<close> is the number of nested calls the interpreter still
  allows: a container or an object met at depth 0 raises RecursionError. A list and a
  tuple give an array, a dictionary an object; for an object of another type the hook is
  called and the string it returns is encoded in its place.
\<close>

fun encode :: "(pyval \<Rightarrow> string) \<Rightarrow> nat \<Rightarrow> pyval \<Rightarrow> error + string"
and encode_list :: "(pyval \<Rightarrow> string) \<Rightarrow> nat \<Rightarrow> pyval list \<Rightarrow> error + string list"
and encode_items :: "(pyval \<Rightarrow> string) \<Rightarrow> nat \<Rightarrow> pydict \<Rightarrow> error + string list"
where
  "encode dflt depth PNone = Inr ''null''"
| "encode dflt depth (PBool b) = Inr (if b then ''true'' else ''false'')"
| "encode dflt depth (PInt i) = repr_int i"
| "encode dflt depth (PFloat r) = Inr (floatstr r)"
| "encode dflt depth (PStr s) = Inr (encode_str s)"
| "encode dflt depth (PList xs) =
     (if depth = 0 then Inl (Raised ''RecursionError'')
      else case encode_list dflt (depth - 1) xs of
             Inl e \<Rightarrow> Inl e
           | Inr ss \<Rightarrow> Inr (bracket (CHR ''['') (CHR '']'') ss))"
| "encode dflt depth (PTuple xs) =
     (if depth = 0 then Inl (Raised ''RecursionError'')
      else case encode_list dflt (depth - 1) xs of
             Inl e \<Rightarrow> Inl e
           | Inr ss \<Rightarrow> Inr (bracket (CHR ''['') (CHR '']'') ss))"
| "encode dflt depth (PDict kvs) =
     (if depth = 0 then Inl (Raised ''RecursionError'')
      else case encode_items dflt (depth - 1) kvs of
             Inl e \<Rightarrow> Inl e
           | Inr ss \<Rightarrow> Inr (bracket (CHR ''{'') (CHR ''}'') ss))"
| "encode dflt depth (PObj q) =
     (if depth = 0 then Inl (Raised ''RecursionError'')
      else Inr (encode_str (dflt (PObj q))))"
| "encode_list dflt depth [] = Inr []"
| "encode_list dflt depth (x # xs) =
     (case encode dflt depth x of
        Inl e \<Rightarrow> Inl e
      | Inr s \<Rightarrow>
          (case encode_list dflt depth xs of
             Inl e \<Rightarrow> Inl e
           | Inr ss \<Rightarrow> Inr (s # ss)))"
| "encode_items dflt depth [] = Inr []"
| "encode_items dflt depth ((k, v) # kvs) =
     (case encode_key k of
        Inl e \<Rightarrow> Inl e
      | Inr ks \<Rightarrow>
          (case encode dflt depth v of
             Inl e \<Rightarrow> Inl e
           | Inr s \<Rightarrow>
               (case encode_items dflt depth kvs of
                  Inl e \<Rightarrow> Inl e
                | Inr ss \<Rightarrow> Inr ((ks @ '': '' @ s) # ss))))"

definition encoder :: "nat \<Rightarrow> dumps" where
  "encoder depth dflt obj = encode dflt depth obj"

subsection \<open>A world and a client\<close>

text \<open>
  A configuration file, a controller that answers every request with a token, a clock,
  two lines on standard input and one dictionary of query parameters in the store.
\<close>

definition example_config :: pyval where
  "example_config =
     PDict [(PStr ''baseurl'', PStr ''https://omada.local:8043''),
            (PStr ''site'', PStr ''Default''),
            (PStr ''verify'', PBool False),
            (PStr ''username'', PStr ''admin''),
            (PStr ''password'', PStr ''secret'')]"

definition example_body :: json_value where
  "example_body =
     JDict [(''errorCode'', JInt 0), (''result'', JDict [(''token'', JStr ''abc123'')])]"

definition example_world :: world where
  "example_world =
     \<lparr>files = (\<lambda>p. if p = ''config.yml'' then Some (Inr example_config) else None),
      stdin = [''admin'', ''secret''],
      stdout = [],
      clock = (\<lambda>n. 1700000000000 + int n),
      ticks = 0,
      server = (\<lambda>log req. Inr (Inr example_body)),
      sent = [],
      json_dumps = encoder 900,
      heap = (\<lambda>a. if a = 0 then [(PStr ''token'', PStr ''mine''), (PStr ''page'', PInt 1)] else []),
      next_addr = 1\<rparr>"

definition example_client :: client where
  "example_client =
     \<lparr>config_fpath = ''config.yml'', token = PStr ''abc123'', base_api_path = ''/api/v2'',
      config_dict = Some example_config, baseurl = PStr ''https://omada.local:8043'',
      site = PStr ''Default'', verify = PBool False,
      login_username = Some (PStr ''admin''), login_password = Some (PStr ''secret''),
      session = Some \<lparr>s_verify = PBool False\<rparr>, login_token = Some (PStr ''abc123'')\<rparr>"

section \<open>Properties\<close>

lemmas io_defs = io_bind_def io_lift_def io_return_def io_raise_def

lemmas call_defs = makeApiCall_def io_defs attach_token_def get_timestamp_def
  session_request_def serialize_params_def serialize_response_def print_debug_def
  result_getitem_def print_obj_def py_print_def Let_def

lemmas example_defs = example_world_def example_client_def example_config_def example_body_def

lemmas json_defs = safe_json_serialize_def encoder_def bracket_def encode_str_def
  escape_char_def repr_int_def dec_digit_def default_hook_def floatstr_def

lemma map_of_dict_set: "map_of (dict_set d k v) = (map_of d)(k \<mapsto> v)"
  by (induction d k v rule: dict_set.induct) (auto simp: fun_eq_iff)

lemma path_to_url_error: "path_to_url self url = Inl e \<Longrightarrow> e = TypeError"
  by (auto simp: path_to_url_def split: sum.splits elim!: str_add.elims)

lemma login_fields: "login self w = (Inr (t, self'), w') \<Longrightarrow> self' = self\<lparr>token := t\<rparr>"
  by (auto simp: login_def io_defs split: option.splits sum.splits prod.splits)

lemma makeApiCall_no_session:
  "session self = None
    \<Longrightarrow> \<exists>e. fst (makeApiCall self url mode ep data json debug it bare w) = Inl e"
  by (auto simp: call_defs split: sum.splits prod.splits if_splits option.splits)

lemma login_prompt_result:
  "login_prompt self w = (Inr (u, p), w') \<Longrightarrow> u = PNone \<and> p = PNone"
  by (auto simp: login_prompt_def io_defs split: sum.splits prod.splits)

lemma login_prompt_no_session:
  assumes "session self = None"
  shows "\<exists>e. fst (login_prompt self w) = Inl e"
proof -
  have m: "\<And>url mode ep data json debug it bare w r w'.
      makeApiCall self url mode ep data json debug it bare w = (r, w') \<Longrightarrow> \<exists>e. r = Inl e"
    using makeApiCall_no_session [OF assms] by (metis fst_conv)
  show ?thesis
    by (auto simp: login_prompt_def io_defs split: sum.splits prod.splits dest!: m)
qed

subsection \<open>The token and the timestamp\<close>

text \<open>
  C1 (amended). Whenever \<open>makeApiCall\<close> with \<open>include_token\<close> true hands a request to
  the session, \<open>endpoint_params\<close> is a dictionary and the parameters of that request hold
  under \<open>"token"\<close> the token stored in the client, under \<open>"_"\<close> the clock reading taken
  in the call, and under every other key what the caller's dictionary held. An entry
  that the caller supplied under \<open>"token"\<close> or \<open>"_"\<close> is replaced, not kept.
\<close>

theorem makeApiCall_token_params:
  assumes "makeApiCall self url mode ep data json debug True bare_url w = (r, w')"
    and "sent w' \<noteq> sent w"
  shows "\<exists>a req d. ep = Some a \<and> sent w' = sent w @ [req] \<and> req_params req = PDict d
           \<and> map_of d (PStr ''token'') = Some (token self)
           \<and> map_of d (PStr ''_'') = Some (PInt (clock w (ticks w)))
           \<and> (\<forall>k. k \<noteq> PStr ''token'' \<longrightarrow> k \<noteq> PStr ''_''
                  \<longrightarrow> map_of d k = map_of (heap w a) k)"
  using assms
  by (auto simp: call_defs map_of_dict_set
      split: sum.splits prod.splits if_splits option.splits)

theorem makeApiCall_token_params_witness:
  "sent (snd (makeApiCall example_client (PStr ''/sites'') ''GET'' (Some 0) PNone PNone
                False True (PBool False) example_world))
     = [\<lparr>req_method = ''GET'', req_url = PStr ''https://omada.local:8043/api/v2/sites'',
         req_params = PDict [(PStr ''token'', PStr ''abc123''), (PStr ''page'', PInt 1),
                             (PStr ''_'', PInt 1700000000000)],
         req_data = PNone, req_json = PNone\<rparr>]
   \<and> (\<exists>a req d. Some (0::nat) = Some a
         \<and> sent (snd (makeApiCall example_client (PStr ''/sites'') ''GET'' (Some 0) PNone PNone
                        False True (PBool False) example_world))
             = sent example_world @ [req]
         \<and> req_params req = PDict d
         \<and> map_of d (PStr ''token'') = Some (token example_client)
         \<and> map_of d (PStr ''_'') = Some (PInt (clock example_world (ticks example_world)))
         \<and> map_of d (PStr ''page'') = map_of (heap example_world a) (PStr ''page''))"
proof -
  define out where "out = makeApiCall example_client (PStr ''/sites'') ''GET'' (Some 0) PNone PNone
                False True (PBool False) example_world"
  have run: "makeApiCall example_client (PStr ''/sites'') ''GET'' (Some 0) PNone PNone
                False True (PBool False) example_world = (fst out, snd out)"
    by (simp add: out_def)
  have s: "sent (snd out)
     = [\<lparr>req_method = ''GET'', req_url = PStr ''https://omada.local:8043/api/v2/sites'',
         req_params = PDict [(PStr ''token'', PStr ''abc123''), (PStr ''page'', PInt 1),
                             (PStr ''_'', PInt 1700000000000)],
         req_data = PNone, req_json = PNone\<rparr>]"
    unfolding out_def by (simp add: call_defs example_defs path_to_url_def json_defs)
  have ne: "sent (snd out) \<noteq> sent example_world"
    unfolding s by (simp add: example_world_def)
  have "\<exists>a req d. Some (0::nat) = Some a \<and> sent (snd out) = sent example_world @ [req]
           \<and> req_params req = PDict d
           \<and> map_of d (PStr ''token'') = Some (token example_client)
           \<and> map_of d (PStr ''_'') = Some (PInt (clock example_world (ticks example_world)))
           \<and> (\<forall>k. k \<noteq> PStr ''token'' \<longrightarrow> k \<noteq> PStr ''_''
                  \<longrightarrow> map_of d k = map_of (heap example_world a) k)"
    by (rule makeApiCall_token_params [OF run ne])
  then have "\<exists>a req d. Some (0::nat) = Some a \<and> sent (snd out) = sent example_world @ [req]
           \<and> req_params req = PDict d
           \<and> map_of d (PStr ''token'') = Some (token example_client)
           \<and> map_of d (PStr ''_'') = Some (PInt (clock example_world (ticks example_world)))
           \<and> map_of d (PStr ''page'') = map_of (heap example_world a) (PStr ''page'')"
    by fastforce
  with s show ?thesis unfolding out_def by blast
qed

text \<open>
  The claim as it stands fails for a caller who supplies an entry under \<open>"token"\<close>: the
  request carries the client's token in its place.
\<close>

theorem makeApiCall_token_counterexample:
  "map_of (heap example_world 0) (PStr ''token'') = Some (PStr ''mine'')
   \<and> map (\<lambda>req. py_getitem (req_params req) ''token'')
        (sent (snd (makeApiCall example_client (PStr ''/sites'') ''GET'' (Some 0) PNone PNone
                      False True (PBool False) example_world)))
       = [Inr (PStr ''abc123'')]"
  by (simp add: call_defs example_defs path_to_url_def json_defs)

subsection \<open>The prompt\<close>

text \<open>
  C2. When there is no configuration file, \<open>__init__\<close> does not complete: \<open>login_prompt\<close>
  makes an API call before the session object exists, which raises AttributeError, so
  \<open>login_username\<close> and \<open>login_password\<close> are never assigned and \<open>login\<close> is never
  reached. (Were the call to return, \<open>login_prompt\<close> would return the pair
  \<open>(None, None)\<close> and not the strings read, see \<open>login_prompt_result\<close>.)
\<close>

theorem init_without_config:
  assumes "files w fpath = None"
  shows "\<exists>e. fst (init fpath b s v w) = Inl e"
proof -
  obtain e where "fst (login_prompt
      \<lparr>config_fpath = fpath, token = PNone, base_api_path = ''/api/v2'',
       config_dict = None, baseurl = b, site = s,
       verify = v, login_username = None, login_password = None,
       session = None, login_token = None\<rparr> w) = Inl e"
    using login_prompt_no_session by fastforce
  then show ?thesis
    using assms by (auto simp: init_def io_bind_def Let_def split: prod.splits sum.splits)
qed

theorem init_without_config_witness:
  "files example_world ''missing.yml'' = None
   \<and> fst (init ''missing.yml'' (PStr ''https://omada.local:8043'') (PStr ''Default'') (PBool True)
           example_world) = Inl (AttributeError ''session'')
   \<and> stdin (snd (init ''missing.yml'' (PStr ''https://omada.local:8043'') (PStr ''Default'')
                  (PBool True) example_world)) = []
   \<and> sent (snd (init ''missing.yml'' (PStr ''https://omada.local:8043'') (PStr ''Default'')
                  (PBool True) example_world)) = []"
proof -
  have f: "files example_world ''missing.yml'' = None"
    by (simp add: example_world_def)
  have "\<exists>e. fst (init ''missing.yml'' (PStr ''https://omada.local:8043'') (PStr ''Default'')
                  (PBool True) example_world) = Inl e"
    by (rule init_without_config [OF f])
  then show ?thesis
    by (simp add: init_def login_prompt_def py_input_def new_dict_def call_defs example_defs
        path_to_url_def)
qed

subsection \<open>The returned dictionary\<close>

text \<open>
  C3. Every call of \<open>makeApiCall\<close> that returns has sent one request, whose response
  body parsed; the returned dictionary holds that parsed body under \<open>"json_data"\<close> and,
  under \<open>"json_data_pretty"\<close>, the string that \<open>safe_json_serialize\<close> returns for it.
\<close>

theorem makeApiCall_raw_and_pretty:
  assumes "makeApiCall self url mode ep data json debug include_token bare_url w = (Inr res, w')"
  shows "\<exists>req body s. sent w' = sent w @ [req] \<and> server w (sent w) req = Inr (Inr body)
           \<and> map_of res ''json_data'' = Some (Val (to_py body))
           \<and> map_of res ''json_data_pretty'' = Some (Val (PStr s))
           \<and> safe_json_serialize (json_dumps w) (to_py body) (PInt 4) = Inr s"
  using assms
  by (auto simp: call_defs split: sum.splits prod.splits if_splits option.splits
      elim!: response_json.elims)

theorem makeApiCall_raw_and_pretty_witness:
  "(\<exists>res. fst (makeApiCall example_client (PStr ''/sites'') ''GET'' (Some 0) PNone PNone
                 False True (PBool False) example_world) = Inr res
      \<and> map_of res ''json_data'' = Some (Val (to_py example_body))
      \<and> map_of res ''json_data_pretty''
          = Some (Val (PStr (CHR ''{'' # encode_str ''errorCode'' @ '': 0, ''
               @ encode_str ''result'' @ '': {'' @ encode_str ''token'' @ '': ''
               @ encode_str ''abc123'' @ ''}}'')))
      \<and> (\<exists>req body s. sent (snd (makeApiCall example_client (PStr ''/sites'') ''GET'' (Some 0)
                 PNone PNone False True (PBool False) example_world)) = sent example_world @ [req]
           \<and> server example_world (sent example_world) req = Inr (Inr body)
           \<and> map_of res ''json_data'' = Some (Val (to_py body))
           \<and> map_of res ''json_data_pretty'' = Some (Val (PStr s))
           \<and> safe_json_serialize (json_dumps example_world) (to_py body) (PInt 4) = Inr s))"
proof -
  define out where "out = makeApiCall example_client (PStr ''/sites'') ''GET'' (Some 0) PNone PNone
                False True (PBool False) example_world"
  have "\<exists>res. fst out = Inr res
      \<and> map_of res ''json_data'' = Some (Val (to_py example_body))
      \<and> map_of res ''json_data_pretty''
          = Some (Val (PStr (CHR ''{'' # encode_str ''errorCode'' @ '': 0, ''
               @ encode_str ''result'' @ '': {'' @ encode_str ''token'' @ '': ''
               @ encode_str ''abc123'' @ ''}}'')))"
    unfolding out_def by (simp add: call_defs example_defs path_to_url_def json_defs)
  then obtain res where res: "fst out = Inr res"
      "map_of res ''json_data'' = Some (Val (to_py example_body))"
      "map_of res ''json_data_pretty''
          = Some (Val (PStr (CHR ''{'' # encode_str ''errorCode'' @ '': 0, ''
               @ encode_str ''result'' @ '': {'' @ encode_str ''token'' @ '': ''
               @ encode_str ''abc123'' @ ''}}'')))"
    by blast
  have run: "makeApiCall example_client (PStr ''/sites'') ''GET'' (Some 0) PNone PNone
                False True (PBool False) example_world = (Inr res, snd out)"
    using res(1) by (simp add: out_def prod_eq_iff)
  from makeApiCall_raw_and_pretty [OF run] res show ?thesis
    unfolding out_def by blast
qed

subsection \<open>The mode\<close>




subsection \<open>The URL\<close>

text \<open>
  C5. For a client whose base URL is a string, \<open>path_to_url\<close> of a path is the base
  URL, then \<open>/api/v2\<close>, then the path. The URL of the request that \<open>makeApiCall\<close> sends,
  and the \<open>"url"\<close> entry of the dictionary it returns, is \<open>path_to_url\<close> of the argument
  \<open>url\<close> when \<open>bare_url\<close> is falsy, and the argument itself when \<open>bare_url\<close> is truthy.
\<close>

theorem makeApiCall_url:
  assumes "base_api_path self = ''/api/v2''" and "baseurl self = PStr b"
    and "makeApiCall self url mode ep data json debug include_token bare_url w = (r, w')"
  shows "path_to_url self (PStr p) = Inr (PStr (b @ ''/api/v2'' @ p))
     \<and> (sent w' = sent w \<or> (\<exists>req. sent w' = sent w @ [req]
           \<and> (if truthy bare_url then req_url req = url
               else path_to_url self url = Inr (req_url req))))
     \<and> (\<forall>res. r = Inr res \<longrightarrow> (\<exists>u. map_of res ''url'' = Some (Val u)
           \<and> (if truthy bare_url then u = url else path_to_url self url = Inr u)))"
proof (intro conjI)
  show "path_to_url self (PStr p) = Inr (PStr (b @ ''/api/v2'' @ p))"
    using assms(1,2) by (simp add: path_to_url_def)
  show "sent w' = sent w \<or> (\<exists>req. sent w' = sent w @ [req]
           \<and> (if truthy bare_url then req_url req = url
               else path_to_url self url = Inr (req_url req)))"
    using assms(3)
    by (auto simp: call_defs split: sum.splits prod.splits if_splits option.splits)
  show "\<forall>res. r = Inr res \<longrightarrow> (\<exists>u. map_of res ''url'' = Some (Val u)
           \<and> (if truthy bare_url then u = url else path_to_url self url = Inr u))"
    using assms(3)
    by (auto simp: call_defs split: sum.splits prod.splits if_splits option.splits)
qed

theorem makeApiCall_url_witness:
  "base_api_path example_client = ''/api/v2''
   \<and> baseurl example_client = PStr ''https://omada.local:8043''
   \<and> path_to_url example_client (PStr ''/sites'') = Inr (PStr ''https://omada.local:8043/api/v2/sites'')
   \<and> map req_url (sent (snd (makeApiCall example_client (PStr ''/sites'') ''GET'' (Some 0) PNone
        PNone False True (PBool False) example_world)))
       = [PStr ''https://omada.local:8043/api/v2/sites'']
   \<and> map req_url (sent (snd (makeApiCall example_client (PStr ''http://other/x'') ''GET'' (Some 0)
        PNone PNone False True (PBool True) example_world)))
       = [PStr ''http://other/x'']"
proof -
  define out where "out = makeApiCall example_client (PStr ''/sites'') ''GET'' (Some 0) PNone PNone
                False True (PBool False) example_world"
  have run: "makeApiCall example_client (PStr ''/sites'') ''GET'' (Some 0) PNone PNone
                False True (PBool False) example_world = (fst out, snd out)"
    by (simp add: out_def)
  have a: "base_api_path example_client = ''/api/v2''"
    and b: "baseurl example_client = PStr ''https://omada.local:8043''"
    by (simp_all add: example_client_def)
  have "path_to_url example_client (PStr ''/sites'')
      = Inr (PStr (''https://omada.local:8043'' @ ''/api/v2'' @ ''/sites''))"
    using makeApiCall_url [OF a b run, of "''/sites''"] by blast
  then show ?thesis
    by (simp add: call_defs example_defs path_to_url_def json_defs)
qed

subsection \<open>The login\<close>

text \<open>
  C6. Let \<open>login\<close> send its request and the response body parse to \<open>d\<close>. If \<open>login\<close>
  returns, it returns \<open>d["result"]["token"]\<close> and that value is the client's token.
  And if \<open>d["result"]["token"]\<close> exists, \<open>login\<close> returns, provided \<open>json.dumps\<close>
  does not raise on the two values that \<open>makeApiCall\<close> serialises on the way (None
  and \<open>d\<close>).
\<close>

theorem login_token:
  assumes "login self w = (r, w')" and "sent w' = sent w @ [req]"
    and "server w (sent w) req = Inr (Inr d)"
  shows "(\<forall>t self'. r = Inr (t, self') \<longrightarrow>
            (\<exists>x. py_getitem (to_py d) ''result'' = Inr x \<and> py_getitem x ''token'' = Inr t)
            \<and> self' = self\<lparr>token := t\<rparr>)
     \<and> (\<forall>x t s1 s2. py_getitem (to_py d) ''result'' = Inr x \<longrightarrow> py_getitem x ''token'' = Inr t
            \<longrightarrow> json_dumps w default_hook PNone = Inr s1
            \<longrightarrow> json_dumps w default_hook (to_py d) = Inr s2
            \<longrightarrow> r = Inr (t, self\<lparr>token := t\<rparr>))"
  using assms
  by (auto simp: login_def call_defs obj_getitem_def safe_json_serialize_def
      split: sum.splits prod.splits if_splits option.splits)

theorem login_token_witness:
  "fst (login example_client example_world)
     = Inr (PStr ''abc123'', example_client\<lparr>token := PStr ''abc123''\<rparr>)
   \<and> sent (snd (login example_client example_world))
     = sent example_world
       @ [\<lparr>req_method = ''POST'', req_url = PStr ''https://omada.local:8043/api/v2/login'',
           req_params = PNone, req_data = PNone,
           req_json = PDict [(PStr ''username'', PStr ''admin''),
                             (PStr ''password'', PStr ''secret'')]\<rparr>]
   \<and> py_getitem (to_py example_body) ''result'' = Inr (PDict [(PStr ''token'', PStr ''abc123'')])
   \<and> py_getitem (PDict [(PStr ''token'', PStr ''abc123'')]) ''token'' = Inr (PStr ''abc123'')"
proof -
  define out where "out = login example_client example_world"
  define req where "req = \<lparr>req_method = ''POST'',
           req_url = PStr ''https://omada.local:8043/api/v2/login'',
           req_params = PNone, req_data = PNone,
           req_json = PDict [(PStr ''username'', PStr ''admin''),
                             (PStr ''password'', PStr ''secret'')]\<rparr>"
  have run: "login example_client example_world = (fst out, snd out)"
    by (simp add: out_def)
  have s: "sent (snd out) = sent example_world @ [req]"
    unfolding out_def req_def
    by (simp add: login_def obj_getitem_def call_defs example_defs path_to_url_def json_defs)
  have b: "server example_world (sent example_world) req = Inr (Inr example_body)"
    by (simp add: example_world_def)
  have x: "py_getitem (to_py example_body) ''result'' = Inr (PDict [(PStr ''token'', PStr ''abc123'')])"
    and t: "py_getitem (PDict [(PStr ''token'', PStr ''abc123'')]) ''token'' = Inr (PStr ''abc123'')"
    by (simp_all add: example_body_def)
  have d1: "\<exists>s1. json_dumps example_world default_hook PNone = Inr s1"
    and d2: "\<exists>s2. json_dumps example_world default_hook (to_py example_body) = Inr s2"
    by (simp_all add: example_defs json_defs)
  have "fst out = Inr (PStr ''abc123'', example_client\<lparr>token := PStr ''abc123''\<rparr>)"
    using login_token [OF run s b] x t d1 d2 by blast
  with s x t show ?thesis
    unfolding out_def req_def by blast
qed

subsection \<open>The configuration file\<close>

text \<open>
  C7. When the configuration file exists, the outcome of \<open>__init__\<close> is the same for
  all arguments \<open>baseurl\<close>, \<open>site\<close> and \<open>verify\<close>, and in the object it returns the five
  settings are the entries \<open>baseurl\<close>, \<open>site\<close>, \<open>verify\<close>, \<open>username\<close> and \<open>password\<close>
  of the mapping loaded from the file.
\<close>

theorem init_from_config:
  assumes "files w fpath = Some loaded"
  shows "init fpath b s v w = init fpath b' s' v' w
     \<and> (\<forall>self w'. init fpath b s v w = (Inr self, w') \<longrightarrow>
          (\<exists>cfg u p. loaded = Inr cfg
             \<and> py_getitem cfg ''baseurl'' = Inr (baseurl self)
             \<and> py_getitem cfg ''site'' = Inr (site self)
             \<and> py_getitem cfg ''verify'' = Inr (verify self)
             \<and> py_getitem cfg ''username'' = Inr u \<and> login_username self = Some u
             \<and> py_getitem cfg ''password'' = Inr p \<and> login_password self = Some p))"
  using assms
  by (auto simp: init_def init_session_def io_defs dest!: login_fields
      split: sum.splits prod.splits)

theorem init_from_config_witness:
  "files example_world ''config.yml'' = Some (Inr example_config)
   \<and> fst (init ''config.yml'' PNone (PStr ''elsewhere'') (PBool True) example_world)
       = Inr \<lparr>config_fpath = ''config.yml'', token = PStr ''abc123'', base_api_path = ''/api/v2'',
              config_dict = Some example_config, baseurl = PStr ''https://omada.local:8043'',
              site = PStr ''Default'', verify = PBool False,
              login_username = Some (PStr ''admin''), login_password = Some (PStr ''secret''),
              session = Some \<lparr>s_verify = PBool False\<rparr>, login_token = Some (PStr ''abc123'')\<rparr>
   \<and> init ''config.yml'' PNone (PStr ''elsewhere'') (PBool True) example_world
       = init ''config.yml'' (PStr ''http://x'') (PStr ''Default'') (PBool False) example_world"
proof -
  have f: "files example_world ''config.yml'' = Some (Inr example_config)"
    by (simp add: example_world_def)
  have r: "fst (init ''config.yml'' PNone (PStr ''elsewhere'') (PBool True) example_world)
       = Inr \<lparr>config_fpath = ''config.yml'', token = PStr ''abc123'', base_api_path = ''/api/v2'',
              config_dict = Some example_config, baseurl = PStr ''https://omada.local:8043'',
              site = PStr ''Default'', verify = PBool False,
              login_username = Some (PStr ''admin''), login_password = Some (PStr ''secret''),
              session = Some \<lparr>s_verify = PBool False\<rparr>, login_token = Some (PStr ''abc123'')\<rparr>"
    by (simp add: init_def init_session_def login_def obj_getitem_def call_defs example_defs
        path_to_url_def json_defs)
  from init_from_config [OF f, of PNone "PStr ''elsewhere''" "PBool True"
      "PStr ''http://x''" "PStr ''Default''" "PBool False"] f r
  show ?thesis by blast
qed

subsection \<open>No parameters\<close>

text \<open>
  C8. With \<open>include_token\<close> true and \<open>endpoint_params\<close> None, \<open>makeApiCall\<close> raises and
  leaves the world as it was: no request is handed to the session. The exception is
  the AttributeError of \<open>None.update\<close>, or the TypeError of the URL concatenation when
  that fails first.
\<close>

theorem makeApiCall_no_params_raises:
  "makeApiCall self url mode None data json debug True bare_url w
     = (Inl (if truthy bare_url \<or> (\<exists>u. path_to_url self url = Inr u)
               then AttributeError ''update'' else TypeError), w)"
  by (auto simp: makeApiCall_def io_defs attach_token_def dest: path_to_url_error
      split: sum.splits prod.splits)

theorem makeApiCall_no_params_raises_witness:
  "makeApiCall example_client (PStr ''/sites'') ''GET'' None PNone PNone False True (PBool False)
     example_world = (Inl (AttributeError ''update''), example_world)
   \<and> sent example_world = []"
proof -
  have "\<exists>u. path_to_url example_client (PStr ''/sites'') = Inr u"
    by (simp add: path_to_url_def example_client_def)
  then show ?thesis
    using makeApiCall_no_params_raises [of example_client "PStr ''/sites''" "''GET''" PNone PNone
        False "PBool False" example_world]
    by (simp add: example_world_def)
qed

subsection \<open>The caller's dictionary\<close>



subsection \<open>The serialiser\<close>

lemma safe_json_serialize_indent:
  "safe_json_serialize dumps obj indent = safe_json_serialize dumps obj indent'"
  by (simp add: safe_json_serialize_def)

text \<open>
  C10. \<open>safe_json_serialize\<close> does raise on some inputs: the \<open>default\<close> hook covers the
  values of a type that \<open>json.dumps\<close> cannot serialise, not the dictionary keys, and the
  exception of \<open>json.dumps\<close> is not caught. A dictionary with a key that is an object
  raises TypeError. A non-serializable value in a list is replaced by the placeholder
  string, and the argument \<open>indent\<close> has no effect on the result.
\<close>

theorem safe_json_serialize_raises:
  "safe_json_serialize (json_dumps example_world) (PDict [(PObj ''object'', PInt 1)]) (PInt 4)
     = Inl TypeError
   \<and> safe_json_serialize (json_dumps example_world) (PList [PObj ''Session'', PInt 1]) (PInt 4)
     = Inr (CHR ''['' # encode_str ''<<non-serializable: Session>>'' @ '', 1]'')
   \<and> safe_json_serialize dumps obj indent = safe_json_serialize dumps obj (PInt 4)"
  by (simp add: example_defs json_defs)

end
